theory Spec2Isabelle
  imports Main "HOL-Library.AList"
begin

text \<open>
  A shallow embedding of three console assistants written in Python: the country
  information toolkit (\<open>country_info_toolkit.py\<close>), the mood analyser with hand-off
  (\<open>mood_handoff.py\<close>) and the product suggester (\<open>product_suggester.py\<close>); and
  proofs about their lookups, their parsers of labelled replies, their fallback report
  and their interactive loops. Every function of the model has the name of the method it
  embeds, without a leading underscore.
\<close>

section \<open>The Python runtime the three programs rely on\<close>

text \<open>
  Strings are Python \<open>str\<close> values, held as their UTF-8 bytes. The string methods
  below follow CPython on ASCII text (the case mapping of letters \<open>A..Z\<close>, the
  whitespace characters below U+0080); bytes of a non-ASCII character are neither
  whitespace nor cased and are left as they are.

  Only exceptions below \<open>Exception\<close> are values of \<open>py_error\<close>: they are what the
  \<open>except Exception\<close> handlers of the programs catch. An interrupt is modelled where
  the programs handle it, at the console prompt.
\<close>

datatype py_error =
    KeyError string
  | IndexError string
  | ProviderError string

fun str_of_error :: "py_error \<Rightarrow> string" where
  "str_of_error (KeyError k) = [CHR 0x27] @ k @ [CHR 0x27]"
| "str_of_error (IndexError m) = m"
| "str_of_error (ProviderError m) = m"

definition bind_err :: "py_error + 'a \<Rightarrow> ('a \<Rightarrow> py_error + 'b) \<Rightarrow> py_error + 'b" where
  "bind_err m f = (case m of Inl e \<Rightarrow> Inl e | Inr x \<Rightarrow> f x)"

subsection \<open>String methods\<close>

definition isspace :: "char \<Rightarrow> bool" where
  "isspace c = (c \<in> set [CHR 0x09, CHR 0x0A, CHR 0x0B, CHR 0x0C, CHR 0x0D,
                           CHR 0x1C, CHR 0x1D, CHR 0x1E, CHR 0x1F, CHR 0x20])"

definition lstrip :: "string \<Rightarrow> string" where
  "lstrip s = dropWhile isspace s"

definition rstrip :: "string \<Rightarrow> string" where
  "rstrip s = rev (dropWhile isspace (rev s))"

definition strip :: "string \<Rightarrow> string" where
  "strip s = rstrip (lstrip s)"

definition ascii_uppercase :: string where
  "ascii_uppercase = ''ABCDEFGHIJKLMNOPQRSTUVWXYZ''"

definition ascii_lowercase :: string where
  "ascii_lowercase = ''abcdefghijklmnopqrstuvwxyz''"

definition lower_char :: "char \<Rightarrow> char" where
  "lower_char c =
     (case map_of (zip ascii_uppercase ascii_lowercase) c of None \<Rightarrow> c | Some d \<Rightarrow> d)"

definition upper_char :: "char \<Rightarrow> char" where
  "upper_char c =
     (case map_of (zip ascii_lowercase ascii_uppercase) c of None \<Rightarrow> c | Some d \<Rightarrow> d)"

definition is_cased :: "char \<Rightarrow> bool" where
  "is_cased c = (c \<in> set (ascii_uppercase @ ascii_lowercase))"

definition lower :: "string \<Rightarrow> string" where
  "lower s = map lower_char s"

definition upper :: "string \<Rightarrow> string" where
  "upper s = map upper_char s"

text \<open>
  \<open>str.title()\<close>: a character that follows a cased character is lower-cased, any
  other character is upper-cased.
\<close>

fun title_from :: "bool \<Rightarrow> string \<Rightarrow> string" where
  "title_from previous_is_cased [] = []"
| "title_from previous_is_cased (c # cs) =
     (if previous_is_cased then lower_char c else upper_char c) # title_from (is_cased c) cs"

definition title :: "string \<Rightarrow> string" where
  "title s = title_from False s"

definition startswith :: "string \<Rightarrow> string \<Rightarrow> bool" where
  "startswith s p = (take (length p) s = p)"

text \<open>\<open>s.split(sep)\<close> for a separator of one character: never an empty list.\<close>

fun split_char :: "char \<Rightarrow> string \<Rightarrow> string list" where
  "split_char sep [] = [[]]"
| "split_char sep (c # cs) =
     (if c = sep then [] # split_char sep cs
      else (case split_char sep cs of [] \<Rightarrow> [[c]] | w # ws \<Rightarrow> (c # w) # ws))"

text \<open>\<open>s.split(sep, 1)\<close>: one element when \<open>sep\<close> does not occur, two otherwise.\<close>

definition split_first :: "char \<Rightarrow> string \<Rightarrow> string list" where
  "split_first sep s =
     (if sep \<in> set s
      then [takeWhile (\<lambda>c. c \<noteq> sep) s, tl (dropWhile (\<lambda>c. c \<noteq> sep) s)]
      else [s])"

subsection \<open>Lists and dictionaries\<close>

definition list_getitem :: "'a list \<Rightarrow> nat \<Rightarrow> py_error + 'a" where
  "list_getitem xs i =
     (if i < length xs then Inr (xs ! i) else Inl (IndexError ''list index out of range''))"

text \<open>
  A \<open>dict\<close> with string keys is an association list in insertion order; assigning to a
  key that is present keeps its position, as in Python.
\<close>

type_synonym 'v dict = "(string \<times> 'v) list"

definition dict_contains :: "'v dict \<Rightarrow> string \<Rightarrow> bool" where
  "dict_contains d k = (map_of d k \<noteq> None)"

definition dict_getitem :: "'v dict \<Rightarrow> string \<Rightarrow> py_error + 'v" where
  "dict_getitem d k = (case map_of d k of None \<Rightarrow> Inl (KeyError k) | Some v \<Rightarrow> Inr v)"

definition dict_get :: "'v dict \<Rightarrow> string \<Rightarrow> 'v \<Rightarrow> 'v" where
  "dict_get d k dflt = (case map_of d k of None \<Rightarrow> dflt | Some v \<Rightarrow> v)"

definition dict_setitem :: "'v dict \<Rightarrow> string \<Rightarrow> 'v \<Rightarrow> 'v dict" where
  "dict_setitem d k v = AList.update k v d"


section \<open>Console and text-generation provider\<close>

text \<open>
  The effects of the programs are writes to the console, requests to the hosted
  text-generation service and draws from the random generator. The \<open>world\<close> records
  what was written (one entry for each \<open>print\<close> call and each prompt of \<open>input\<close>),
  which prompts were submitted, and how many random draws were made. Pauses
  (\<open>time.sleep\<close>) are not modelled.

  The provider is an oracle: its reply may depend on the prompts submitted before and on
  the prompt. Its reply is the text of the response, or the exception raised by the call
  or by reading the text. The random generator is the sequence of its draws.
\<close>

record world =
  console :: "string list"
  requests :: "string list"
  draws :: nat

type_synonym provider = "string list \<Rightarrow> string \<Rightarrow> py_error + string"

type_synonym randomness = "nat \<Rightarrow> nat"

definition print :: "string \<Rightarrow> world \<Rightarrow> world" where
  "print s w = w\<lparr>console := console w @ [s]\<rparr>"

definition generate_content :: "provider \<Rightarrow> string \<Rightarrow> world \<Rightarrow> (py_error + string) \<times> world" where
  "generate_content P prompt w = (P (requests w) prompt, w\<lparr>requests := requests w @ [prompt]\<rparr>)"

definition random_choice :: "randomness \<Rightarrow> 'a list \<Rightarrow> world \<Rightarrow> (py_error + 'a) \<times> world" where
  "random_choice R xs w =
     (if xs = [] then (Inl (IndexError ''Cannot choose from an empty sequence''), w)
      else (Inr (xs ! (R (draws w) mod length xs)), w\<lparr>draws := Suc (draws w)\<rparr>))"

text \<open>
  What the user does at a prompt: enters a line, or interrupts. A session that has
  read all the input there is waits at its prompt.
\<close>

datatype console_input = Line string | Interrupt

datatype session = Ended | AwaitingInput

section \<open>mood\_handoff.py\<close>

text \<open>
  The string constants of the programs are the UTF-8 bytes of the literals in the
  source; a constant with a parameter is an f-string.
\<close>

subsection \<open>MoodAnalyzerAgent.\_parse\_mood\_response\<close>

fun parse_mood_lines :: "string list \<Rightarrow> string dict \<Rightarrow> py_error + string dict" where
  "parse_mood_lines [] mood_data = Inr mood_data"
| "parse_mood_lines (line # lines) mood_data =
     (if startswith line ''MOOD:'' then
        bind_err (list_getitem (split_first CHR '':'' line) 1)
          (\<lambda>v. parse_mood_lines lines (dict_setitem mood_data ''mood'' (lower (strip v))))
      else if startswith line ''CONFIDENCE:'' then
        bind_err (list_getitem (split_first CHR '':'' line) 1)
          (\<lambda>v. parse_mood_lines lines (dict_setitem mood_data ''confidence'' (lower (strip v))))
      else parse_mood_lines lines mood_data)"

definition parse_mood_response :: "string \<Rightarrow> py_error + string dict" where
  "parse_mood_response response_text =
     parse_mood_lines (split_char CHR ''\<newline>'' (strip response_text))
       [(''mood'', ''neutral''), (''confidence'', ''medium'')]"

subsection \<open>MoodAnalyzerAgent.analyze\_mood\<close>

definition mood_prompt :: "string \<Rightarrow> string" where
  "mood_prompt user_message =
     (''\<newline>'' @ ''        Analyze the mood of the following message and respond '' @
      ''ONLY in this exact format:\<newline>'' @ ''        MOOD: [mood_type]\<newline>'' @
      ''        CONFIDENCE: [high/medium/low]\<newline>'' @ ''        \<newline>'' @
      ''        Available mood types: happy, sad, stressed, anxious, '' @
      ''excited, angry, calm, neutral\<newline>'' @ ''        \<newline>        Message: '' @
      [CHR 0x22]) @
     user_message @ ([CHR 0x22] @ ''\<newline>        '')"

definition error_analyzing_mood :: "py_error \<Rightarrow> string" where
  "error_analyzing_mood e = ''Error analyzing mood: '' @ str_of_error e"

definition analyze_mood :: "provider \<Rightarrow> string \<Rightarrow> world \<Rightarrow> string dict \<times> world" where
  "analyze_mood P user_message w =
     (case generate_content P (mood_prompt user_message) w of
        (Inl e, w1) \<Rightarrow>
          ([(''mood'', ''neutral''), (''confidence'', ''medium'')],
           print (error_analyzing_mood e) w1)
      | (Inr text, w1) \<Rightarrow>
          (case parse_mood_response text of
             Inl e \<Rightarrow>
               ([(''mood'', ''neutral''), (''confidence'', ''medium'')],
                print (error_analyzing_mood e) w1)
           | Inr mood_data \<Rightarrow> (mood_data, w1)))"

subsection \<open>ActivitySuggesterAgent\<close>

definition activity_templates :: "string list dict" where
  "activity_templates =
     [(''sad'',
         [(''Take a walk in nature '' @ [CHR 0xF0, CHR 0x9F, CHR 0x8C, CHR 0xB3]),
          (''Listen to uplifting music '' @ [CHR 0xF0, CHR 0x9F, CHR 0x8E, CHR 0xB5]),
          (''Write in a journal '' @ [CHR 0xF0, CHR 0x9F, CHR 0x93, CHR 0x9D]),
          (''Call a friend or loved one '' @ [CHR 0xF0, CHR 0x9F, CHR 0x93, CHR 0x9E]),
          (''Watch a favorite movie '' @ [CHR 0xF0, CHR 0x9F, CHR 0x8E, CHR 0xAC])]),
      (''stressed'',
         [(''Practice deep breathing exercises '' @ [CHR 0xF0, CHR 0x9F, CHR 0xA7, CHR 0x98]),
          (''Try a short meditation session '' @
            [CHR 0xE2, CHR 0x98, CHR 0xAF, CHR 0xEF, CHR 0xB8, CHR 0x8F]),
          (''Do some light stretching or yoga '' @ [CHR 0xF0, CHR 0x9F, CHR 0x92, CHR 0xAA]),
          (''Take a warm bath '' @ [CHR 0xF0, CHR 0x9F, CHR 0x9B, CHR 0x81]),
          (''Drink herbal tea '' @ [CHR 0xF0, CHR 0x9F, CHR 0x8D, CHR 0xB5])]),
      (''anxious'',
         [(''Practice 4-7-8 breathing technique '' @
            [CHR 0xF0, CHR 0x9F, CHR 0x8C, CHR 0xAC, CHR 0xEF, CHR 0xB8, CHR 0x8F]),
          (''Use the 5-4-3-2-1 grounding method '' @
            [CHR 0xF0, CHR 0x9F, CHR 0x8C, CHR 0x8D]),
          (''Write down your thoughts '' @ [CHR 0xF0, CHR 0x9F, CHR 0x93, CHR 0x9D]),
          (''Listen to calming sounds '' @ [CHR 0xF0, CHR 0x9F, CHR 0x8C, CHR 0x8A]),
          (''Progressive muscle relaxation '' @ [CHR 0xF0, CHR 0x9F, CHR 0x92, CHR 0x86])]),
      (''angry'',
         [(''Physical exercise (running, boxing) '' @
            [CHR 0xF0, CHR 0x9F, CHR 0x8F, CHR 0x83]),
          (''Punch a pillow or scream into it '' @ [CHR 0xF0, CHR 0x9F, CHR 0x98, CHR 0xA4]),
          (''Write a letter (but don'' @ [CHR 0x27] @ ''t send it) '' @
            [CHR 0xE2, CHR 0x9C, CHR 0x89, CHR 0xEF, CHR 0xB8, CHR 0x8F]),
          (''Count slowly to 10 '' @ [CHR 0xF0, CHR 0x9F, CHR 0x94, CHR 0xA2]),
          (''Listen to heavy metal music '' @ [CHR 0xF0, CHR 0x9F, CHR 0x8E, CHR 0xB8])])]"

definition default_activity :: string where
  "default_activity =
     (''Take a break and breathe deeply '' @
      [CHR 0xF0, CHR 0x9F, CHR 0x8C, CHR 0xAC, CHR 0xEF, CHR 0xB8, CHR 0x8F])"

definition positive_mood_message :: "string \<Rightarrow> string" where
  "positive_mood_message mood =
     (''Your mood '' @ [CHR 0x27]) @ mood @
     ([CHR 0x27] @ '' seems positive! '' @ [CHR 0xF0, CHR 0x9F, CHR 0x98, CHR 0x8A] @
      '' Keep doing what makes you happy!'')"

definition activity_prompt :: "string \<Rightarrow> string \<Rightarrow> string" where
  "activity_prompt mood user_message =
     ''\<newline>        The user is feeling '' @ mood @
     (''. Their message was: '' @ [CHR 0x22]) @ user_message @
     ([CHR 0x22] @ ''\<newline>        \<newline>'' @
      ''        Suggest ONE appropriate activity that might help them '' @
      ''feel better.\<newline>'' @ ''        Use this format:\<newline>'' @
      ''        ACTIVITY: [Activity description with emoji]\<newline>'' @
      ''        EXPLANATION: [Brief explanation of why this activity '' @
      ''helps]\<newline>        \<newline>'' @
      ''        Keep the suggestion practical, helpful, and empathetic.\<newline>'' @
      ''        '')"

definition fallback_suggestion :: "string \<Rightarrow> string \<Rightarrow> string" where
  "fallback_suggestion fallback_activity mood =
     ''ACTIVITY: '' @ fallback_activity @
     (''\<newline>'' @
      ''EXPLANATION: This activity can help improve your mood when feeling '') @
     mood @ ''.''"

definition parse_activity_response :: "string \<Rightarrow> string" where
  "parse_activity_response response_text = strip response_text"

definition get_fallback_activity ::
  "randomness \<Rightarrow> string \<Rightarrow> world \<Rightarrow> (py_error + string) \<times> world" where
  "get_fallback_activity R mood w =
     (let activities = dict_get activity_templates mood [default_activity]
      in random_choice R activities w)"

definition suggest_activity ::
  "provider \<Rightarrow> randomness \<Rightarrow> string \<Rightarrow> string \<Rightarrow> world \<Rightarrow> (py_error + string) \<times> world" where
  "suggest_activity P R mood user_message w =
     (if mood \<notin> set [''sad'', ''stressed'', ''anxious'', ''angry''] then
        (Inr (positive_mood_message mood), w)
      else
        (case generate_content P (activity_prompt mood user_message) w of
           (Inr text, w1) \<Rightarrow> (Inr (parse_activity_response text), w1)
         | (Inl e, w1) \<Rightarrow>
             (case get_fallback_activity R mood w1 of
                (Inl e2, w2) \<Rightarrow> (Inl e2, w2)
              | (Inr fallback_activity, w2) \<Rightarrow>
                  (Inr (fallback_suggestion fallback_activity mood), w2))))"

subsection \<open>MoodHandoffSystem\<close>

record mood_result =
  r_user_message :: string
  r_mood_analysis :: "string dict"
  r_activity_suggestion :: "string option"

definition analyzing_your_mood :: string where
  "analyzing_your_mood =
     ([CHR 0xF0, CHR 0x9F, CHR 0x94, CHR 0x8D] @ '' Agent 1: Analyzing your mood...'')"

definition mood_detected :: "string \<Rightarrow> string \<Rightarrow> string" where
  "mood_detected mood confidence =
     ([CHR 0xE2, CHR 0x9C, CHR 0x85] @ '' Mood detected: '') @ mood @
     '' (confidence: '' @ confidence @ '')''"

definition handing_off :: string where
  "handing_off =
     ([CHR 0xF0, CHR 0x9F, CHR 0x94, CHR 0x84] @
      '' Handing off to Activity Suggester Agent...'')"

definition suggestion_generated :: string where
  "suggestion_generated =
     ([CHR 0xE2, CHR 0x9C, CHR 0x85] @ '' Activity suggestion generated!'')"

definition run ::
  "provider \<Rightarrow> randomness \<Rightarrow> string \<Rightarrow> world \<Rightarrow> (py_error + mood_result) \<times> world" where
  "run P R user_message w =
     (let w1 = print analyzing_your_mood w in
      case analyze_mood P user_message w1 of
        (mood_analysis, w2) \<Rightarrow>
          (case dict_getitem mood_analysis ''mood'' of
             Inl e \<Rightarrow> (Inl e, w2)
           | Inr mood \<Rightarrow>
               (case dict_getitem mood_analysis ''confidence'' of
                  Inl e \<Rightarrow> (Inl e, w2)
                | Inr confidence \<Rightarrow>
                    (let w3 = print (mood_detected mood confidence) w2;
                         result = \<lparr>r_user_message = user_message,
                                   r_mood_analysis = mood_analysis,
                                   r_activity_suggestion = None\<rparr>
                     in
                     if mood \<in> set [''sad'', ''stressed'', ''anxious'', ''angry''] then
                       (let w4 = print handing_off w3 in
                        case suggest_activity P R mood user_message w4 of
                          (Inl e, w5) \<Rightarrow> (Inl e, w5)
                        | (Inr suggestion, w5) \<Rightarrow>
                            (Inr (result\<lparr>r_activity_suggestion := Some suggestion\<rparr>),
                             print suggestion_generated w5))
                     else (Inr result, w3)))))"

definition results_header :: "string \<Rightarrow> string \<Rightarrow> string \<Rightarrow> string" where
  "results_header user_message mood confidence =
     (''\<newline>        '' @ [CHR 0xF0, CHR 0x9F, CHR 0x8E, CHR 0xAD] @
      '' MOOD ANALYSIS RESULTS\<newline>        '') @
     replicate 40 CHR ''='' @
     (''\<newline>        '' @ [CHR 0xF0, CHR 0x9F, CHR 0x93, CHR 0x9D] @ '' Your message: '' @
      [CHR 0x22]) @
     user_message @
     ([CHR 0x22] @ ''\<newline>        '' @ [CHR 0xF0, CHR 0x9F, CHR 0x8E, CHR 0xAF] @
      '' Detected mood: '') @
     upper mood @
     (''\<newline>        '' @ [CHR 0xF0, CHR 0x9F, CHR 0x93, CHR 0x8A] @ '' Confidence: '') @
     upper confidence @ ''\<newline>        '' @ replicate 40 CHR ''='' @ ''\<newline>        ''"

definition suggested_activity_block :: "string \<Rightarrow> string" where
  "suggested_activity_block suggestion =
     (''\<newline>        '' @ [CHR 0xF0, CHR 0x9F, CHR 0x92, CHR 0xA1] @
      '' SUGGESTED ACTIVITY\<newline>        '') @
     replicate 40 CHR ''='' @ ''\<newline>        '' @ suggestion @
     ''\<newline>        '' @ replicate 40 CHR ''='' @
     (''\<newline>        \<newline>        '' @ [CHR 0xF0, CHR 0x9F, CHR 0x8C, CHR 0x9F] @
      '' Remember: It'' @ [CHR 0x27] @ ''s okay to feel this way sometimes. \<newline>'' @
      ''        Take care of yourself! '' @ [CHR 0xF0, CHR 0x9F, CHR 0x92, CHR 0x96] @
      ''\<newline>            '')"

definition positive_block :: string where
  "positive_block =
     (''\<newline>        '' @ [CHR 0xF0, CHR 0x9F, CHR 0x8C, CHR 0x9F] @
      '' Great! Your mood seems positive. \<newline>'' @
      ''        Keep spreading the good vibes! '' @ [CHR 0xE2, CHR 0x9C, CHR 0xA8] @
      ''\<newline>            '')"

text \<open>In \<open>format_results\<close> a suggestion counts when it is neither \<open>None\<close> nor empty.\<close>

definition format_results :: "mood_result \<Rightarrow> py_error + string" where
  "format_results results =
     bind_err (dict_getitem (r_mood_analysis results) ''mood'') (\<lambda>mood.
     bind_err (dict_getitem (r_mood_analysis results) ''confidence'') (\<lambda>confidence.
       (let output = results_header (r_user_message results) mood confidence in
        case r_activity_suggestion results of
          None \<Rightarrow> Inr (output @ positive_block)
        | Some suggestion \<Rightarrow>
            if suggestion \<noteq> [] then Inr (output @ suggested_activity_block suggestion)
            else Inr (output @ positive_block))))"

subsection \<open>MoodHandoffSystem.run\_interactive\<close>

definition mood_banner :: "string list" where
  "mood_banner =
     [replicate 50 CHR ''='',
      ([CHR 0xF0, CHR 0x9F, CHR 0xA4, CHR 0x96] @ '' MOOD ANALYZER WITH HANDOFF SYSTEM''),
      replicate 50 CHR ''='',
      ''I can analyze your mood and suggest helpful activities!'',
      (''Type '' @ [CHR 0x27] @ ''quit'' @ [CHR 0x27] @ '' to exit at any time.\<newline>'')]"

definition mood_input_prompt :: string where
  "mood_input_prompt =
     ([CHR 0xF0, CHR 0x9F, CHR 0x92, CHR 0xAC] @ '' How are you feeling today? '')"

definition mood_farewell :: string where
  "mood_farewell =
     (''\<newline>'' @ ''Thank you for using Mood Analyzer! Take care! '' @
      [CHR 0xF0, CHR 0x9F, CHR 0x91, CHR 0x8B])"

definition mood_empty_input :: string where
  "mood_empty_input =
     (''Please share how you'' @ [CHR 0x27] @ ''re feeling...'')"

definition mood_again :: string where
  "mood_again =
     (''Would you like to share how you'' @ [CHR 0x27] @ ''re feeling again?'')"

definition mood_interrupted :: string where
  "mood_interrupted =
     (''\<newline>\<newline>'' @ ''Session ended. Take care of yourself! '' @
      [CHR 0xF0, CHR 0x9F, CHR 0x92, CHR 0x96])"

definition mood_apology :: "py_error \<Rightarrow> string" where
  "mood_apology e =
     ''\<newline>I apologize, I encountered an error: '' @ str_of_error e"

definition mood_try_again :: string where
  "mood_try_again =
     ''Please try again or take a break and come back later.\<newline>''"

fun mood_loop ::
  "provider \<Rightarrow> randomness \<Rightarrow> console_input list \<Rightarrow> world \<Rightarrow> session \<times> world" where
  "mood_loop P R [] w = (AwaitingInput, print mood_input_prompt w)"
| "mood_loop P R (Interrupt # rest) w =
     (Ended, print mood_interrupted (print mood_input_prompt w))"
| "mood_loop P R (Line entered # rest) w =
     (let w0 = print mood_input_prompt w;
          user_input = strip entered
      in
      if lower user_input \<in> set [''quit'', ''exit'', ''bye''] then
        (Ended, print mood_farewell w0)
      else if user_input = [] then
        mood_loop P R rest (print mood_empty_input w0)
      else
        (case run P R user_input w0 of
           (Inl e, w1) \<Rightarrow>
             mood_loop P R rest (print mood_try_again (print (mood_apology e) w1))
         | (Inr results, w1) \<Rightarrow>
             (case format_results results of
                Inl e \<Rightarrow>
                  mood_loop P R rest (print mood_try_again (print (mood_apology e) w1))
              | Inr formatted \<Rightarrow>
                  mood_loop P R rest
                    (print mood_again
                       (print (''\<newline>'' @ replicate 50 CHR ''='')
                          (print (''\<newline>'' @ formatted) w1))))))"

definition mood_run_interactive ::
  "provider \<Rightarrow> randomness \<Rightarrow> console_input list \<Rightarrow> world \<Rightarrow> session \<times> world" where
  "mood_run_interactive P R inputs w =
     mood_loop P R inputs (foldl (\<lambda>w s. print s w) w mood_banner)"

section \<open>product\_suggester.py\<close>

subsection \<open>ProductSuggester.\_parse\_analysis\_response\<close>




subsection \<open>ProductSuggester.run\_interactive\<close>

text \<open>
  \<open>process_query\<close> (two requests to the provider, \<open>textwrap.fill\<close>) is a parameter of
  the loop: a function of the query and the world that returns the formatted
  recommendation or raises.
\<close>

type_synonym query_processor = "string \<Rightarrow> world \<Rightarrow> (py_error + string) \<times> world"

definition product_banner :: "string list" where
  "product_banner =
     [replicate 60 CHR ''='',
      ([CHR 0xF0, CHR 0x9F, CHR 0x8F, CHR 0xAA] @
       '' WELCOME TO SMART HEALTH STORE - AI PRODUCT SUGGESTER''),
      replicate 60 CHR ''='',
      ''I can help you find the right products for your needs!'',
      (''Examples: '' @ [CHR 0x27] @ ''I have a headache'' @ [CHR 0x27] @ '', '' @ [CHR 0x27] @
       ''My allergies are acting up'' @ [CHR 0x27]),
      (''Type '' @ [CHR 0x27] @ ''quit'' @ [CHR 0x27] @ '' or '' @ [CHR 0x27] @ ''exit'' @
       [CHR 0x27] @ '' to end the session\<newline>'')]"

definition product_input_prompt :: string where
  "product_input_prompt =
     ([CHR 0xF0, CHR 0x9F, CHR 0x91, CHR 0xA4] @ '' How can I help you today? '')"

definition product_farewell :: string where
  "product_farewell =
     (''\<newline>'' @ ''Thank you for visiting Smart Health Store! Get well soon! '' @
      [CHR 0xF0, CHR 0x9F, CHR 0x91, CHR 0x8B])"

definition product_empty_input :: string where
  "product_empty_input =
     ''Please tell me what you need help with.''"

definition product_again :: string where
  "product_again =
     ''Is there anything else I can help you with today?''"

definition product_interrupted :: string where
  "product_interrupted =
     (''\<newline>\<newline>'' @ ''Thank you for visiting Smart Health Store! '' @
      [CHR 0xF0, CHR 0x9F, CHR 0x91, CHR 0x8B])"

definition product_apology :: "py_error \<Rightarrow> string" where
  "product_apology e =
     ''\<newline>I apologize, I encountered an error: '' @ str_of_error e"

definition product_try_again :: string where
  "product_try_again =
     ''Please try again or visit our store for assistance.\<newline>''"

fun product_loop ::
  "query_processor \<Rightarrow> console_input list \<Rightarrow> world \<Rightarrow> session \<times> world" where
  "product_loop process_query [] w = (AwaitingInput, print product_input_prompt w)"
| "product_loop process_query (Interrupt # rest) w =
     (Ended, print product_interrupted (print product_input_prompt w))"
| "product_loop process_query (Line entered # rest) w =
     (let w0 = print product_input_prompt w;
          user_input = strip entered
      in
      if lower user_input \<in> set [''quit'', ''exit'', ''bye'', ''goodbye''] then
        (Ended, print product_farewell w0)
      else if user_input = [] then
        product_loop process_query rest (print product_empty_input w0)
      else
        (case process_query user_input w0 of
           (Inl e, w1) \<Rightarrow>
             product_loop process_query rest
               (print product_try_again (print (product_apology e) w1))
         | (Inr recommendation, w1) \<Rightarrow>
             product_loop process_query rest
               (print product_again
                  (print (''\<newline>'' @ replicate 60 CHR ''='')
                     (print (''\<newline>'' @ recommendation) w1)))))"

definition product_run_interactive ::
  "query_processor \<Rightarrow> console_input list \<Rightarrow> world \<Rightarrow> session \<times> world" where
  "product_run_interactive process_query inputs w =
     product_loop process_query inputs (foldl (\<lambda>w s. print s w) w product_banner)"

section \<open>country\_info\_toolkit.py\<close>

subsection \<open>The three tool agents\<close>

text \<open>
  Each tool object holds its lookup table (its name and description are not used by any
  method). The tables below are the ones the constructors build.
\<close>

record capital_tool =
  country_capitals :: "string dict"

record language_tool =
  country_languages :: "string dict"

record population_tool =
  country_populations :: "string dict"




definition capital_execute :: "capital_tool \<Rightarrow> string \<Rightarrow> py_error + string dict" where
  "capital_execute self country_name =
     (let country_lower = lower (strip country_name) in
      if dict_contains (country_capitals self) country_lower then
        bind_err (dict_getitem (country_capitals self) country_lower) (\<lambda>capital.
          Inr [(''status'', ''success''),
               (''capital'', capital),
               (''country'', title country_name)])
      else
        Inr [(''status'', ''error''),
             (''message'', ''Capital information not available for '' @ country_name)])"

definition language_execute :: "language_tool \<Rightarrow> string \<Rightarrow> py_error + string dict" where
  "language_execute self country_name =
     (let country_lower = lower (strip country_name) in
      if dict_contains (country_languages self) country_lower then
        bind_err (dict_getitem (country_languages self) country_lower) (\<lambda>language.
          Inr [(''status'', ''success''),
               (''language'', language),
               (''country'', title country_name)])
      else
        Inr [(''status'', ''error''),
             (''message'', ''Language information not available for '' @ country_name)])"

definition population_execute :: "population_tool \<Rightarrow> string \<Rightarrow> py_error + string dict" where
  "population_execute self country_name =
     (let country_lower = lower (strip country_name) in
      if dict_contains (country_populations self) country_lower then
        bind_err (dict_getitem (country_populations self) country_lower) (\<lambda>population.
          Inr [(''status'', ''success''),
               (''population'', population),
               (''country'', title country_name)])
      else
        Inr [(''status'', ''error''),
             (''message'', ''Population information not available for '' @ country_name)])"

subsection \<open>CountryInfoOrchestrator\<close>

record orchestrator =
  capital_tool :: capital_tool
  language_tool :: language_tool
  population_tool :: population_tool


record validation =
  is_valid :: bool
  exists_in_capitals :: bool
  exists_in_languages :: bool
  exists_in_populations :: bool

definition validate_country :: "orchestrator \<Rightarrow> string \<Rightarrow> validation" where
  "validate_country self country_name =
     (let country_lower = lower (strip country_name);
          in_capitals = dict_contains (country_capitals (capital_tool self)) country_lower;
          in_languages = dict_contains (country_languages (language_tool self)) country_lower;
          in_populations =
            dict_contains (country_populations (population_tool self)) country_lower
      in \<lparr>is_valid = (in_capitals \<or> in_languages \<or> in_populations),
          exists_in_capitals = in_capitals,
          exists_in_languages = in_languages,
          exists_in_populations = in_populations\<rparr>)"

record tool_results =
  tr_country :: string
  tr_capital :: "string dict"
  tr_language :: "string dict"
  tr_population :: "string dict"
  tr_all_successful :: bool

fun check_statuses :: "string dict list \<Rightarrow> tool_results \<Rightarrow> py_error + tool_results" where
  "check_statuses [] results = Inr results"
| "check_statuses (tool_result # rest) results =
     bind_err (dict_getitem tool_result ''status'') (\<lambda>status.
       check_statuses rest
         (if status = ''error'' then results\<lparr>tr_all_successful := False\<rparr> else results))"

definition execute_all_tools :: "orchestrator \<Rightarrow> string \<Rightarrow> py_error + tool_results" where
  "execute_all_tools self country_name =
     bind_err (capital_execute (capital_tool self) country_name) (\<lambda>capital.
     bind_err (language_execute (language_tool self) country_name) (\<lambda>language.
     bind_err (population_execute (population_tool self) country_name) (\<lambda>population.
       (let results = \<lparr>tr_country = title country_name,
                        tr_capital = capital,
                        tr_language = language,
                        tr_population = population,
                        tr_all_successful = True\<rparr>
        in check_statuses [tr_capital results, tr_language results, tr_population results]
             results))))"

text \<open>
  A field of the prompt: \<open>d[field] if d['status'] == 'success' else 'Not available'\<close>.
\<close>

definition value_or_not_available :: "string dict \<Rightarrow> string \<Rightarrow> py_error + string" where
  "value_or_not_available tool_result field =
     bind_err (dict_getitem tool_result ''status'') (\<lambda>status.
       if status = ''success'' then dict_getitem tool_result field
       else Inr ''Not available'')"

definition report_prompt :: "tool_results \<Rightarrow> py_error + string" where
  "report_prompt results =
     (let country = tr_country results in
      bind_err (value_or_not_available (tr_capital results) ''capital'') (\<lambda>capital.
      bind_err (value_or_not_available (tr_language results) ''language'') (\<lambda>language.
      bind_err (value_or_not_available (tr_population results) ''population'') (\<lambda>population.
        Inr ((''\<newline>'' @
              ''        Create a comprehensive and engaging country information '' @
              ''report for '') @
             country @
             (''.\<newline>        \<newline>'' @
              ''        Available information:\<newline>'' @ ''        - Capital: '') @
             capital @ ''\<newline>        - Language: '' @ language @
             ''\<newline>        - Population: '' @ population @
             (''\<newline>        \<newline>'' @
              ''        Format the response as a beautiful, informative report '' @
              ''with emojis.\<newline>        Include:\<newline>'' @
              ''        1. A welcoming introduction\<newline>'' @
              ''        2. The available information in a structured way\<newline>'' @
              ''        3. Any missing information with a polite note\<newline>'' @
              ''        4. A friendly conclusion\<newline>'' @ ''        \<newline>'' @
              ''        Keep it professional yet engaging.\<newline>'' @ ''        ''))))))"

definition fallback_header :: "string \<Rightarrow> string" where
  "fallback_header country =
     (''\<newline>        '' @ [CHR 0xF0, CHR 0x9F, CHR 0x8C, CHR 0x8D] @
      '' COUNTRY INFORMATION: '') @
     country @ ''\<newline>        '' @ replicate 50 CHR ''='' @
     ''\<newline>        \<newline>        ''"

definition capital_line :: "string \<Rightarrow> string" where
  "capital_line capital =
     ([CHR 0xF0, CHR 0x9F, CHR 0x8F, CHR 0x9B, CHR 0xEF, CHR 0xB8, CHR 0x8F] @
      ''  Capital: '') @
     capital @ ''\<newline>''"

definition capital_unavailable :: string where
  "capital_unavailable =
     ([CHR 0xE2, CHR 0x9D, CHR 0x8C] @ '' Capital: Information not available\<newline>'')"

definition language_line :: "string \<Rightarrow> string" where
  "language_line language =
     ([CHR 0xF0, CHR 0x9F, CHR 0x97, CHR 0xA3, CHR 0xEF, CHR 0xB8, CHR 0x8F] @
      ''  Language: '') @
     language @ ''\<newline>''"

definition language_unavailable :: string where
  "language_unavailable =
     ([CHR 0xE2, CHR 0x9D, CHR 0x8C] @ '' Language: Information not available\<newline>'')"

definition population_line :: "string \<Rightarrow> string" where
  "population_line population =
     ([CHR 0xF0, CHR 0x9F, CHR 0x91, CHR 0xA5] @ '' Population: '') @
     population @ ''\<newline>''"

definition population_unavailable :: string where
  "population_unavailable =
     ([CHR 0xE2, CHR 0x9D, CHR 0x8C] @ '' Population: Information not available\<newline>'')"

definition fallback_footer :: string where
  "fallback_footer =
     ''\<newline>        '' @ replicate 50 CHR ''='' @
     (''\<newline>        '' @ [CHR 0xE2, CHR 0x84, CHR 0xB9, CHR 0xEF, CHR 0xB8, CHR 0x8F] @
      ''  Note: This information is from our database. \<newline>'' @
      ''        For the most current data, please refer to official '' @
      ''sources.\<newline>        '')"

definition create_fallback_report :: "tool_results \<Rightarrow> py_error + string" where
  "create_fallback_report results =
     (let country = tr_country results;
          report = fallback_header country
      in
      bind_err (dict_getitem (tr_capital results) ''status'') (\<lambda>capital_status.
      bind_err (if capital_status = ''success''
                then bind_err (dict_getitem (tr_capital results) ''capital'')
                       (\<lambda>capital. Inr (report @ capital_line capital))
                else Inr (report @ capital_unavailable)) (\<lambda>report.
      bind_err (dict_getitem (tr_language results) ''status'') (\<lambda>language_status.
      bind_err (if language_status = ''success''
                then bind_err (dict_getitem (tr_language results) ''language'')
                       (\<lambda>language. Inr (report @ language_line language))
                else Inr (report @ language_unavailable)) (\<lambda>report.
      bind_err (dict_getitem (tr_population results) ''status'') (\<lambda>population_status.
      bind_err (if population_status = ''success''
                then bind_err (dict_getitem (tr_population results) ''population'')
                       (\<lambda>population. Inr (report @ population_line population))
                else Inr (report @ population_unavailable)) (\<lambda>report.
        Inr (report @ fallback_footer))))))))"

text \<open>
  The prompt is built before the \<open>try\<close>; the fallback runs inside the handler, so an
  exception of either leaves the method.
\<close>

definition generate_complete_report ::
  "provider \<Rightarrow> tool_results \<Rightarrow> world \<Rightarrow> (py_error + string) \<times> world" where
  "generate_complete_report P results w =
     (case report_prompt results of
        Inl e \<Rightarrow> (Inl e, w)
      | Inr prompt \<Rightarrow>
          (case generate_content P prompt w of
             (Inr text, w1) \<Rightarrow> (Inr text, w1)
           | (Inl e, w1) \<Rightarrow> (create_fallback_report results, w1)))"

text \<open>
  The result of a query is a dictionary with the key \<open>status\<close> and, by status, the keys
  of one of two shapes.
\<close>

datatype query_result =
    QueryError string string
  | QuerySuccess string tool_results string validation

fun status :: "query_result \<Rightarrow> string" where
  "status (QueryError message suggestions) = ''error''"
| "status (QuerySuccess country results report validation) = ''success''"

definition validating_country :: "string \<Rightarrow> string" where
  "validating_country country_name =
     ([CHR 0xF0, CHR 0x9F, CHR 0x94, CHR 0x8D] @ '' Validating country: '') @
     country_name @ ''...''"

definition no_information_about :: "string \<Rightarrow> string" where
  "no_information_about country_name =
     (''Sorry, I don'' @ [CHR 0x27] @ ''t have information about '' @ [CHR 0x27]) @
     country_name @ ([CHR 0x27] @ '' in my database.'')"

definition try_countries_like :: string where
  "try_countries_like =
     ''Try countries like USA, India, Germany, Japan, Brazil, etc.''"

definition executing_tools :: string where
  "executing_tools =
     ([CHR 0xF0, CHR 0x9F, CHR 0x94, CHR 0x84] @ '' Executing all information tools...'')"

definition generating_report :: string where
  "generating_report =
     ([CHR 0xF0, CHR 0x9F, CHR 0x93, CHR 0x8A] @ '' Generating comprehensive report...'')"

definition process_country_query ::
  "provider \<Rightarrow> orchestrator \<Rightarrow> string \<Rightarrow> world \<Rightarrow> (py_error + query_result) \<times> world" where
  "process_country_query P self country_name w =
     (let w1 = print (validating_country country_name) w;
          validation = validate_country self country_name
      in
      if \<not> is_valid validation then
        (Inr (QueryError (no_information_about country_name) try_countries_like), w1)
      else
        (let w2 = print executing_tools w1 in
         case execute_all_tools self country_name of
           Inl e \<Rightarrow> (Inl e, w2)
         | Inr results \<Rightarrow>
             (let w3 = print generating_report w2 in
              case generate_complete_report P results w3 of
                (Inl e, w4) \<Rightarrow> (Inl e, w4)
              | (Inr report, w4) \<Rightarrow>
                  (Inr (QuerySuccess (title country_name) results report validation), w4))))"

subsection \<open>CountryInfoBot\<close>

definition format_output :: "query_result \<Rightarrow> string" where
  "format_output results =
     (case results of
        QueryError message suggestions \<Rightarrow>
          (''\<newline>            '' @ [CHR 0xE2, CHR 0x9D, CHR 0x8C] @
           '' SORRY, INFORMATION NOT AVAILABLE\<newline>            '') @
          replicate 50 CHR ''='' @ ''\<newline>            '' @ message @
          (''\<newline>            '' @ [CHR 0xF0, CHR 0x9F, CHR 0x92, CHR 0xA1] @ '' '') @
          suggestions @ ''\<newline>            ''
      | QuerySuccess country tool_results report validation \<Rightarrow>
          ''\<newline>        '' @ report @ ''\<newline>        '')"

definition country_banner :: "string list" where
  "country_banner =
     [replicate 60 CHR ''='',
      ([CHR 0xF0, CHR 0x9F, CHR 0x8C, CHR 0x8D] @ '' COUNTRY INFORMATION BOT''),
      replicate 60 CHR ''='',
      ''I can tell you about capitals, languages, and populations!'',
      (''Available countries: USA, UK, Canada, India, Germany, France, '' @
       ''Japan, China, Brazil, etc.''),
      (''Type '' @ [CHR 0x27] @ ''quit'' @ [CHR 0x27] @ '' to exit at any time.\<newline>'')]"

definition country_input_prompt :: string where
  "country_input_prompt =
     ([CHR 0xF0, CHR 0x9F, CHR 0x87, CHR 0xBA, CHR 0xF0, CHR 0x9F, CHR 0x87, CHR 0xB3] @
      '' Which country would you like to know about? '')"

definition country_farewell :: string where
  "country_farewell =
     (''\<newline>'' @ ''Thank you for using Country Info Bot! Goodbye! '' @
      [CHR 0xF0, CHR 0x9F, CHR 0x91, CHR 0x8B])"

definition country_empty_input :: string where
  "country_empty_input =
     ''Please enter a country name...''"

definition country_again :: string where
  "country_again =
     ''Would you like to know about another country?''"

definition country_interrupted :: string where
  "country_interrupted =
     (''\<newline>\<newline>'' @ ''Session ended. Thank you for using Country Info Bot! '' @
      [CHR 0xF0, CHR 0x9F, CHR 0x8C, CHR 0x8F])"

definition country_apology :: "py_error \<Rightarrow> string" where
  "country_apology e =
     ''\<newline>I apologize, I encountered an error: '' @ str_of_error e"

definition country_try_again :: string where
  "country_try_again =
     ''Please try again with a different country name.\<newline>''"

fun country_loop ::
  "provider \<Rightarrow> orchestrator \<Rightarrow> console_input list \<Rightarrow> world \<Rightarrow> session \<times> world" where
  "country_loop P orch [] w = (AwaitingInput, print country_input_prompt w)"
| "country_loop P orch (Interrupt # rest) w =
     (Ended, print country_interrupted (print country_input_prompt w))"
| "country_loop P orch (Line entered # rest) w =
     (let w0 = print country_input_prompt w;
          user_input = strip entered
      in
      if lower user_input \<in> set [''quit'', ''exit'', ''bye'', ''stop''] then
        (Ended, print country_farewell w0)
      else if user_input = [] then
        country_loop P orch rest (print country_empty_input w0)
      else
        (case process_country_query P orch user_input w0 of
           (Inl e, w1) \<Rightarrow>
             country_loop P orch rest
               (print country_try_again (print (country_apology e) w1))
         | (Inr results, w1) \<Rightarrow>
             country_loop P orch rest
               (print country_again
                  (print (''\<newline>'' @ replicate 60 CHR ''='')
                     (print (''\<newline>'' @ format_output results) w1)))))"

definition country_run_interactive ::
  "provider \<Rightarrow> orchestrator \<Rightarrow> console_input list \<Rightarrow> world \<Rightarrow> session \<times> world" where
  "country_run_interactive P orch inputs w =
     country_loop P orch inputs (foldl (\<lambda>w s. print s w) w country_banner)"

section \<open>Notation for the statements\<close>

text \<open>
  The lines that start with a label, and the value a parser binds to a field: its default
  when no line starts with the label, otherwise what \<open>f\<close> makes of the last such
  line without the label.
\<close>

abbreviation labelled :: "string \<Rightarrow> string list \<Rightarrow> string list" where
  "labelled label lines \<equiv> filter (\<lambda>l. startswith l label) lines"

abbreviation last_labelled :: "string \<Rightarrow> string list \<Rightarrow> 'a \<Rightarrow> (string \<Rightarrow> 'a) \<Rightarrow> 'a" where
  "last_labelled label lines dflt f \<equiv>
     (if labelled label lines = [] then dflt
      else f (drop (length label) (last (labelled label lines))))"






section \<open>Verification\<close>

subsection \<open>Evaluation\<close>


subsection \<open>Labelled lines\<close>

text \<open>
  A line that starts with a label ending in a colon splits at that colon: the value read
  by \<open>line.split(":", 1)[1]\<close> is the line without the label, and the index is
  never out of range.
\<close>

lemma startswith_append: "startswith s p \<Longrightarrow> s = p @ drop (length p) s"
  unfolding startswith_def by (metis append_take_drop_id)

lemma startswith_label_value:
  assumes "startswith line (p @ [sep])" and "sep \<notin> set p"
  shows "list_getitem (split_first sep line) 1 = Inr (drop (Suc (length p)) line)"
proof -
  from assms(1) have eq: "line = p @ sep # drop (Suc (length p)) line"
    using startswith_append [of line "p @ [sep]"] by simp
  define rest where "rest = drop (Suc (length p)) line"
  from eq have l: "line = p @ sep # rest" by (simp add: rest_def)
  have p: "\<And>c. c \<in> set p \<Longrightarrow> c \<noteq> sep" using assms(2) by auto
  have "sep \<in> set line" by (subst l) simp
  moreover have "takeWhile (\<lambda>c. c \<noteq> sep) line = p"
    by (subst l) (simp add: p)
  moreover have "dropWhile (\<lambda>c. c \<noteq> sep) line = sep # rest"
    by (subst l) (simp add: p)
  ultimately show ?thesis
    by (simp add: split_first_def list_getitem_def rest_def)
qed

lemma startswith_both:
  assumes "startswith l p" and "startswith l q" and "length p \<le> length q"
  shows "take (length p) q = p"
proof -
  have "take (length p) q = take (length p) (take (length q) l)"
    using assms(2) by (simp add: startswith_def)
  also have "\<dots> = take (length p) l" using assms(3) by (simp add: min_def)
  also have "\<dots> = p" using assms(1) by (simp add: startswith_def)
  finally show ?thesis .
qed

lemma mood_not_confidence: "startswith l ''MOOD:'' \<Longrightarrow> \<not> startswith l ''CONFIDENCE:''"
  using startswith_both [of l "''MOOD:''" "''CONFIDENCE:''"] by auto

lemma mood_value:
  "startswith l ''MOOD:'' \<Longrightarrow> list_getitem (split_first CHR '':'' l) 1 = Inr (drop 5 l)"
  using startswith_label_value [of l "''MOOD''" "CHR '':''"] by (simp add: eval_nat_numeral)

lemma confidence_value:
  "startswith l ''CONFIDENCE:'' \<Longrightarrow> list_getitem (split_first CHR '':'' l) 1 = Inr (drop 11 l)"
  using startswith_label_value [of l "''CONFIDENCE''" "CHR '':''"] by (simp add: eval_nat_numeral)






lemma parse_mood_lines_result:
  "parse_mood_lines lines [(''mood'', a), (''confidence'', b)] =
     Inr [(''mood'', last_labelled ''MOOD:'' lines a (\<lambda>v. lower (strip v))),
          (''confidence'', last_labelled ''CONFIDENCE:'' lines b (\<lambda>v. lower (strip v)))]"
proof (induction lines arbitrary: a b)
  case Nil
  show ?case by simp
next
  case (Cons l ls)
  show ?case
  proof (cases "startswith l ''MOOD:''")
    case True
    then show ?thesis
      using mood_not_confidence [OF True] mood_value [OF True]
      by (simp add: Cons.IH bind_err_def dict_setitem_def eval_nat_numeral)
  next
    case False
    show ?thesis
    proof (cases "startswith l ''CONFIDENCE:''")
      case True
      then show ?thesis
        using False confidence_value [OF True]
        by (simp add: Cons.IH bind_err_def dict_setitem_def eval_nat_numeral)
    next
      case nc: False
      then show ?thesis using False by (simp add: Cons.IH)
    qed
  qed
qed


subsection \<open>Lookups of the country tools\<close>






lemma lower_lower_char: "lower_char (lower_char c) = lower_char c"
  by (simp add: lower_char_def ascii_uppercase_def ascii_lowercase_def)









subsection \<open>Analysis and suggestion of the mood agents\<close>

text \<open>
  The analysis always holds the two fields, whether the provider replied or not; it
  submits one prompt and never prints the hand-off notice. For a mood that needs
  intervention the suggester returns a text: the reply of the provider, or one of the
  five activities stored for the mood.
\<close>

lemma not_handing_off:
  "analyzing_your_mood \<noteq> handing_off"
  "error_analyzing_mood e \<noteq> handing_off"
  "mood_detected m c \<noteq> handing_off"
  by (simp_all add: analyzing_your_mood_def handing_off_def error_analyzing_mood_def
      mood_detected_def)

lemma parse_mood_response_shape:
  "\<exists>m c. parse_mood_response response_text = Inr [(''mood'', m), (''confidence'', c)]"
  unfolding parse_mood_response_def parse_mood_lines_result by simp

lemma analyze_mood_shape:
  "\<exists>m c errs. analyze_mood P user_message w =
     ([(''mood'', m), (''confidence'', c)],
      w\<lparr>console := console w @ errs, requests := requests w @ [mood_prompt user_message]\<rparr>)
     \<and> handing_off \<notin> set errs"
proof (cases "P (requests w) (mood_prompt user_message)")
  case (Inl e)
  then have "analyze_mood P user_message w =
     ([(''mood'', ''neutral''), (''confidence'', ''medium'')],
      w\<lparr>console := console w @ [error_analyzing_mood e],
        requests := requests w @ [mood_prompt user_message]\<rparr>)"
    by (simp add: analyze_mood_def generate_content_def print_def)
  moreover have "handing_off \<notin> set [error_analyzing_mood e]"
    using not_handing_off(2) [of e] by simp
  ultimately show ?thesis by (intro exI conjI)
next
  case (Inr response_text)
  from parse_mood_response_shape [of response_text] obtain m c where
    "parse_mood_response response_text = Inr [(''mood'', m), (''confidence'', c)]"
    by (elim exE)
  with Inr have "analyze_mood P user_message w =
     ([(''mood'', m), (''confidence'', c)],
      w\<lparr>console := console w @ [],
        requests := requests w @ [mood_prompt user_message]\<rparr>)"
    by (simp add: analyze_mood_def generate_content_def)
  moreover have "handing_off \<notin> set []" by simp
  ultimately show ?thesis by (intro exI conjI)
qed

lemma intervention_templates:
  assumes "mood \<in> set [''sad'', ''stressed'', ''anxious'', ''angry'']"
  shows "dict_get activity_templates mood [default_activity] \<noteq> []"
proof -
  from assms consider "mood = ''sad''" | "mood = ''stressed''" | "mood = ''anxious''"
    | "mood = ''angry''" by (simp only: set_simps insert_iff empty_iff) (elim disjE, simp_all)
  then show ?thesis
    by cases (simp_all add: dict_get_def activity_templates_def)
qed

lemma suggest_activity_returns:
  assumes "mood \<in> set [''sad'', ''stressed'', ''anxious'', ''angry'']"
  shows "\<exists>suggestion w'. suggest_activity P R mood user_message w = (Inr suggestion, w')"
proof (cases "P (requests w) (activity_prompt mood user_message)")
  case (Inl e)
  with assms intervention_templates [OF assms] show ?thesis
    by (simp add: suggest_activity_def generate_content_def get_fallback_activity_def
        random_choice_def Let_def)
next
  case (Inr response_text)
  with assms show ?thesis
    by (simp add: suggest_activity_def generate_content_def)
qed

subsection \<open>The parsers\<close>

text \<open>
  Claim C7. Parsing the text \<open>MOOD: Happy\<close>, newline, \<open>CONFIDENCE: High\<close> yields the
  mapping of \<open>mood\<close> to \<open>happy\<close> and of \<open>confidence\<close> to \<open>high\<close>: the values are
  trimmed and lower-cased. The defaults do not matter: the loop of the parser gives the
  same mapping from any two initial values.
\<close>

theorem parse_mood_response_example:
  "parse_mood_response ''MOOD: Happy\<newline>CONFIDENCE: High'' =
     Inr [(''mood'', ''happy''), (''confidence'', ''high'')]
   \<and> parse_mood_lines (split_char CHR ''\<newline>'' (strip ''MOOD: Happy\<newline>CONFIDENCE: High''))
       [(''mood'', default_mood), (''confidence'', default_confidence)] =
     Inr [(''mood'', ''happy''), (''confidence'', ''high'')]"
  by (simp add: parse_mood_response_def parse_mood_lines_result strip_def lstrip_def
      rstrip_def isspace_def startswith_def lower_def lower_char_def ascii_uppercase_def
      ascii_lowercase_def)






subsection \<open>The country tools\<close>












subsection \<open>The hand-off\<close>

text \<open>
  Claim C10. For every user message, provider and random generator,
  \<open>MoodHandoffSystem.run\<close> returns a result, and its activity suggestion is not
  \<open>None\<close> if and only if the detected mood is one of \<open>sad\<close>, \<open>stressed\<close>,
  \<open>anxious\<close>, \<open>angry\<close>. For every other detected mood, expected or not, the
  suggestion is \<open>None\<close> and the activity suggester is not invoked: the only prompt
  submitted is the one of the mood analysis, no random draw is made, and the hand-off
  notice is not printed.
\<close>

theorem handoff_iff_intervention_mood:
  "\<exists>result w' mood printed.
     run P R user_message w = (Inr result, w')
     \<and> r_user_message result = user_message
     \<and> map_of (r_mood_analysis result) ''mood'' = Some mood
     \<and> (r_activity_suggestion result \<noteq> None) =
         (mood \<in> set [''sad'', ''stressed'', ''anxious'', ''angry''])
     \<and> (mood \<notin> set [''sad'', ''stressed'', ''anxious'', ''angry''] \<longrightarrow>
          r_activity_suggestion result = None
          \<and> requests w' = requests w @ [mood_prompt user_message]
          \<and> draws w' = draws w
          \<and> console w' = console w @ printed \<and> handing_off \<notin> set printed)"
proof -
  from analyze_mood_shape [of P user_message "print analyzing_your_mood w"]
  obtain m c errs where
    a: "analyze_mood P user_message (print analyzing_your_mood w) =
          ([(''mood'', m), (''confidence'', c)],
           (print analyzing_your_mood w)
             \<lparr>console := console (print analyzing_your_mood w) @ errs,
              requests := requests (print analyzing_your_mood w) @ [mood_prompt user_message]\<rparr>)"
    and h: "handing_off \<notin> set errs"
    by (elim exE conjE)
  define w2 where "w2 = (print analyzing_your_mood w)
             \<lparr>console := console (print analyzing_your_mood w) @ errs,
              requests := requests (print analyzing_your_mood w) @ [mood_prompt user_message]\<rparr>"
  show ?thesis
  proof (cases "m \<in> set [''sad'', ''stressed'', ''anxious'', ''angry'']")
    case True
    from suggest_activity_returns [OF True, of P R user_message
        "print handing_off (print (mood_detected m c) w2)"]
    obtain suggestion w5 where
      s: "suggest_activity P R m user_message
            (print handing_off (print (mood_detected m c) w2)) = (Inr suggestion, w5)"
      by (elim exE)
    have "run P R user_message w =
        (Inr \<lparr>r_user_message = user_message,
              r_mood_analysis = [(''mood'', m), (''confidence'', c)],
              r_activity_suggestion = Some suggestion\<rparr>,
         print suggestion_generated w5)"
      using a True s unfolding w2_def [symmetric]
      by (simp add: run_def dict_getitem_def Let_def)
    with True show ?thesis by simp
  next
    case False
    have "run P R user_message w =
        (Inr \<lparr>r_user_message = user_message,
              r_mood_analysis = [(''mood'', m), (''confidence'', c)],
              r_activity_suggestion = None\<rparr>,
         print (mood_detected m c) w2)"
      using a False unfolding w2_def [symmetric]
      by (simp add: run_def dict_getitem_def Let_def)
    moreover have "console (print (mood_detected m c) w2) =
        console w @ ([analyzing_your_mood] @ errs @ [mood_detected m c])"
      by (simp add: w2_def print_def)
    moreover have "handing_off \<notin> set ([analyzing_your_mood] @ errs @ [mood_detected m c])"
      using h not_handing_off(1) not_handing_off(3) [of m c] by auto
    moreover have "requests (print (mood_detected m c) w2) = requests w @ [mood_prompt user_message]"
      and "draws (print (mood_detected m c) w2) = draws w"
      by (simp_all add: w2_def print_def)
    ultimately show ?thesis using False
      by (intro exI [of _ "\<lparr>r_user_message = user_message,
              r_mood_analysis = [(''mood'', m), (''confidence'', c)],
              r_activity_suggestion = None\<rparr>"]
          exI [of _ "print (mood_detected m c) w2"] exI [of _ m]
          exI [of _ "[analyzing_your_mood] @ errs @ [mood_detected m c]"]) simp
  qed
qed

text \<open>
  Two runs. The provider finds the mood calm: no suggestion, one prompt submitted. The
  provider finds the mood sad and then fails: the suggestion is the first stored activity
  for \<open>sad\<close>, after the hand-off notice, a second prompt and one random draw.
\<close>

theorem handoff_iff_intervention_mood_witness:
  "(\<exists>result w' mood printed.
     run (\<lambda>sent prompt. Inr ''MOOD: Calm\<newline>CONFIDENCE: High'') (\<lambda>n. 0) ''I am fine''
         \<lparr>console = [], requests = [], draws = 0\<rparr> = (Inr result, w')
     \<and> r_user_message result = ''I am fine''
     \<and> map_of (r_mood_analysis result) ''mood'' = Some mood
     \<and> (r_activity_suggestion result \<noteq> None) =
         (mood \<in> set [''sad'', ''stressed'', ''anxious'', ''angry''])
     \<and> (mood \<notin> set [''sad'', ''stressed'', ''anxious'', ''angry''] \<longrightarrow>
          r_activity_suggestion result = None
          \<and> requests w' = requests \<lparr>console = [], requests = [], draws = 0\<rparr> @
                [mood_prompt ''I am fine'']
          \<and> draws w' = draws \<lparr>console = [], requests = [], draws = 0\<rparr>
          \<and> console w' = console \<lparr>console = [], requests = [], draws = 0\<rparr> @ printed
          \<and> handing_off \<notin> set printed))
   \<and> run (\<lambda>sent prompt. Inr ''MOOD: Calm\<newline>CONFIDENCE: High'') (\<lambda>n. 0) ''I am fine''
         \<lparr>console = [], requests = [], draws = 0\<rparr> =
       (Inr \<lparr>r_user_message = ''I am fine'',
             r_mood_analysis = [(''mood'', ''calm''), (''confidence'', ''high'')],
             r_activity_suggestion = None\<rparr>,
        \<lparr>console = [analyzing_your_mood, mood_detected ''calm'' ''high''],
         requests = [mood_prompt ''I am fine''], draws = 0\<rparr>)
   \<and> run (\<lambda>sent prompt. if sent = [] then Inr ''MOOD: sad'' else Inl (ProviderError ''down''))
         (\<lambda>n. 0) ''bad day'' \<lparr>console = [], requests = [], draws = 0\<rparr> =
       (Inr \<lparr>r_user_message = ''bad day'',
             r_mood_analysis = [(''mood'', ''sad''), (''confidence'', ''medium'')],
             r_activity_suggestion =
               Some (fallback_suggestion
                       (''Take a walk in nature '' @ [CHR 0xF0, CHR 0x9F, CHR 0x8C, CHR 0xB3])
                       ''sad'')\<rparr>,
        \<lparr>console = [analyzing_your_mood, mood_detected ''sad'' ''medium'', handing_off,
                    suggestion_generated],
         requests = [mood_prompt ''bad day'', activity_prompt ''sad'' ''bad day''],
         draws = 1\<rparr>)"
proof -
  have calm: "run (\<lambda>sent prompt. Inr ''MOOD: Calm\<newline>CONFIDENCE: High'') (\<lambda>n. 0) ''I am fine''
         \<lparr>console = [], requests = [], draws = 0\<rparr> =
       (Inr \<lparr>r_user_message = ''I am fine'',
             r_mood_analysis = [(''mood'', ''calm''), (''confidence'', ''high'')],
             r_activity_suggestion = None\<rparr>,
        \<lparr>console = [analyzing_your_mood, mood_detected ''calm'' ''high''],
         requests = [mood_prompt ''I am fine''], draws = 0\<rparr>)"
    by (simp add: run_def analyze_mood_def generate_content_def print_def dict_getitem_def
        Let_def parse_mood_response_def parse_mood_lines_result strip_def lstrip_def
        rstrip_def isspace_def startswith_def lower_def lower_char_def ascii_uppercase_def
        ascii_lowercase_def)
  have sad: "run (\<lambda>sent prompt. if sent = [] then Inr ''MOOD: sad'' else Inl (ProviderError ''down''))
         (\<lambda>n. 0) ''bad day'' \<lparr>console = [], requests = [], draws = 0\<rparr> =
       (Inr \<lparr>r_user_message = ''bad day'',
             r_mood_analysis = [(''mood'', ''sad''), (''confidence'', ''medium'')],
             r_activity_suggestion =
               Some (fallback_suggestion
                       (''Take a walk in nature '' @ [CHR 0xF0, CHR 0x9F, CHR 0x8C, CHR 0xB3])
                       ''sad'')\<rparr>,
        \<lparr>console = [analyzing_your_mood, mood_detected ''sad'' ''medium'', handing_off,
                    suggestion_generated],
         requests = [mood_prompt ''bad day'', activity_prompt ''sad'' ''bad day''],
         draws = 1\<rparr>)"
    by (simp add: run_def analyze_mood_def suggest_activity_def get_fallback_activity_def
        random_choice_def dict_get_def activity_templates_def generate_content_def print_def
        dict_getitem_def Let_def parse_mood_response_def parse_mood_lines_result strip_def
        lstrip_def rstrip_def isspace_def startswith_def lower_def lower_char_def
        ascii_uppercase_def ascii_lowercase_def)
  show ?thesis
    by (rule conjI [OF handoff_iff_intervention_mood conjI [OF calm sad]])
qed

subsection \<open>The interactive loops\<close>




end
